theory Spec2Isabelle
  imports Main "HOL-Library.Word"
begin

section \<open>The Executor service stubs of \<open>faas_pb2_grpc.py\<close>\<close>

text \<open>
  The module holds three pieces around one unary RPC: the client stub \<open>ExecutorStub\<close>,
  the servicer base class \<open>ExecutorServicer\<close> with the registration function
  \<open>add_ExecutorServicer_to_server\<close>, and the static client helper \<open>Executor.Execute\<close>.
  All of them hand their work to objects that are not part of the module: the channel,
  the server, the servicer context and \<open>grpc.experimental.unary_unary\<close>. The model keeps,
  for each of those objects, exactly what the module gives it.
\<close>

subsection \<open>Python values\<close>

text \<open>
  The module never looks into the values it is given; they travel as values of one type.
  \<open>PyObj\<close> stands for any other object (a message, a channel, a credentials object, a
  compression setting), known by its identity only.
\<close>

datatype pyval =
    PyNone
  | PyBool bool
  | PyInt int
  | PyFloat "64 word"
  | PyStr string
  | PyBytes "8 word list"
  | PyTuple "pyval list"
  | PyObj nat

text \<open>The only exception the module raises itself.\<close>

datatype exn = NotImplementedError string

subsection \<open>The message classes and their codec methods\<close>

text \<open>
  \<open>faas_pb2.FaasRequest\<close> and \<open>faas_pb2.FaasReply\<close> are defined outside this module, which
  only names their methods \<open>SerializeToString\<close> and \<open>FromString\<close> and passes them on.
  A codec method is therefore the pair of the method's name and its class.
\<close>

datatype message_class = FaasRequest | FaasReply

datatype codec_method = SerializeToString message_class | FromString message_class

subsection \<open>The servicer context and the default servicer\<close>

text \<open>
  \<open>grpc.StatusCode\<close>, the enumeration of the gRPC library. The module uses
  \<open>UNIMPLEMENTED\<close> only.
\<close>

datatype StatusCode =
    OK | CANCELLED | UNKNOWN | INVALID_ARGUMENT | DEADLINE_EXCEEDED | NOT_FOUND
  | ALREADY_EXISTS | PERMISSION_DENIED | RESOURCE_EXHAUSTED | FAILED_PRECONDITION
  | ABORTED | OUT_OF_RANGE | UNIMPLEMENTED | INTERNAL | UNAVAILABLE | DATA_LOSS
  | UNAUTHENTICATED

text \<open>
  The servicer context of one call, as far as the module touches it: the status code and
  the detail string that the call completes with, each unset (\<open>None\<close>) until a handler
  sets it.
\<close>

record ServicerContext =
  code :: "StatusCode option"
  details :: "string option"

definition set_code :: "StatusCode \<Rightarrow> 'a ServicerContext_scheme \<Rightarrow> 'a ServicerContext_scheme" where
  "set_code c ctx = ctx\<lparr>code := Some c\<rparr>"

definition set_details :: "string \<Rightarrow> 'a ServicerContext_scheme \<Rightarrow> 'a ServicerContext_scheme" where
  "set_details d ctx = ctx\<lparr>details := Some d\<rparr>"

text \<open>
  A method behaviour takes the request and the context; it leaves the context as its
  calls changed it, and either raises (\<open>Inl\<close>) or returns a reply (\<open>Inr\<close>).
\<close>

type_synonym 'a behaviour = "pyval \<Rightarrow> 'a ServicerContext_scheme \<Rightarrow> 'a ServicerContext_scheme \<times> (exn + pyval)"

text \<open>
  \<open>ExecutorServicer.Execute(self, request, context)\<close>: two calls on the context, then the
  \<open>raise\<close>. The body reads neither \<open>self\<close> nor \<open>request\<close>.
\<close>

definition ExecutorServicer_Execute :: "'s \<Rightarrow> 'a behaviour" where
  "ExecutorServicer_Execute self request ctx =
     (let ctx1 = set_code UNIMPLEMENTED ctx;
          ctx2 = set_details ''Method not implemented!'' ctx1
      in (ctx2, Inl (NotImplementedError ''Method not implemented!'')))"

text \<open>
  A servicer object, seen through the one attribute the module reads from it:
  \<open>servicer.Execute\<close>, the method bound to the object. A subclass that overrides
  \<open>Execute\<close> is a servicer with another behaviour; an instance of the base class itself is
  \<open>ExecutorServicer\<close>, where the unit value stands for the receiver that the body never reads.
\<close>

record 'a servicer =
  Execute :: "'a behaviour"

definition ExecutorServicer :: "'a servicer" where
  "ExecutorServicer = \<lparr>Execute = ExecutorServicer_Execute ()\<rparr>"

subsection \<open>Registration on a server\<close>

text \<open>
  \<open>grpc.unary_unary_rpc_method_handler(behavior, request_deserializer=..., response_serializer=...)\<close>
  packs its three arguments into a method handler.
\<close>

record 'a RpcMethodHandler =
  unary_unary :: "'a behaviour"
  request_deserializer :: codec_method
  response_serializer :: codec_method

definition unary_unary_rpc_method_handler ::
  "'a behaviour \<Rightarrow> codec_method \<Rightarrow> codec_method \<Rightarrow> 'a RpcMethodHandler" where
  "unary_unary_rpc_method_handler behavior req_deserializer resp_serializer =
     \<lparr>unary_unary = behavior,
      request_deserializer = req_deserializer,
      response_serializer = resp_serializer\<rparr>"

text \<open>
  \<open>grpc.method_handlers_generic_handler(service, method_handlers)\<close> packs the service name
  and the dictionary of method handlers into a generic handler. The dictionary is kept as
  the list of its entries in the order of the literal.
\<close>

record 'a GenericRpcHandler =
  service_name :: string
  method_handlers :: "(string \<times> 'a RpcMethodHandler) list"

definition method_handlers_generic_handler ::
  "string \<Rightarrow> (string \<times> 'a RpcMethodHandler) list \<Rightarrow> 'a GenericRpcHandler" where
  "method_handlers_generic_handler service handlers =
     \<lparr>service_name = service, method_handlers = handlers\<rparr>"

text \<open>
  The server is the caller's object, and the module only calls its
  \<open>add_generic_rpc_handlers\<close>. It is modelled by the generic handlers it has been given,
  in the order of the calls, which is the state a gRPC server keeps of them: the call
  extends that list and checks nothing about names already present.
\<close>

record 'a server =
  generic_handlers :: "'a GenericRpcHandler list"

definition add_generic_rpc_handlers ::
  "'a GenericRpcHandler list \<Rightarrow> ('a, 'b) server_scheme \<Rightarrow> ('a, 'b) server_scheme" where
  "add_generic_rpc_handlers handlers srv =
     srv\<lparr>generic_handlers := generic_handlers srv @ handlers\<rparr>"

text \<open>
  \<open>add_ExecutorServicer_to_server(servicer, server)\<close>. Its two local variables are
  definitions of their own, so that the theorems can name what the function builds. The
  function has no \<open>raise\<close> and no test: it returns normally (\<open>Inr\<close>), and what it returns
  here is the pair of the two objects it was given, as the call leaves them.
\<close>

definition rpc_method_handlers :: "'a servicer \<Rightarrow> (string \<times> 'a RpcMethodHandler) list" where
  "rpc_method_handlers servicer =
     [(''Execute'',
       unary_unary_rpc_method_handler (Execute servicer)
         (FromString FaasRequest) (SerializeToString FaasReply))]"

definition generic_handler :: "'a servicer \<Rightarrow> 'a GenericRpcHandler" where
  "generic_handler servicer =
     method_handlers_generic_handler ''faasfunction.Executor'' (rpc_method_handlers servicer)"

definition add_ExecutorServicer_to_server ::
  "'a servicer \<Rightarrow> ('a, 'b) server_scheme \<Rightarrow> exn + ('a servicer \<times> ('a, 'b) server_scheme)" where
  "add_ExecutorServicer_to_server servicer srv =
     Inr (servicer, add_generic_rpc_handlers [generic_handler servicer] srv)"

text \<open>
  How a gRPC server finds the handler of an incoming call (library behaviour, not code of
  the module): a generic handler serves each of its methods under the name
  \<open>/service/method\<close>, and the server asks its generic handlers in order and takes the
  first answer.
\<close>

definition fully_qualified_method :: "string \<Rightarrow> string \<Rightarrow> string" where
  "fully_qualified_method svc method = ''/'' @ svc @ ''/'' @ method"

fun lookup_method ::
  "string \<Rightarrow> string \<Rightarrow> (string \<times> 'a RpcMethodHandler) list \<Rightarrow> 'a RpcMethodHandler option" where
  "lookup_method svc name [] = None"
| "lookup_method svc name ((m, h) # rest) =
     (if fully_qualified_method svc m = name then Some h else lookup_method svc name rest)"

definition service :: "'a GenericRpcHandler \<Rightarrow> string \<Rightarrow> 'a RpcMethodHandler option" where
  "service g name = lookup_method (service_name g) name (method_handlers g)"

fun find_method_handler ::
  "'a GenericRpcHandler list \<Rightarrow> string \<Rightarrow> 'a RpcMethodHandler option" where
  "find_method_handler [] name = None"
| "find_method_handler (g # gs) name =
     (case service g name of Some h \<Rightarrow> Some h | None \<Rightarrow> find_method_handler gs name)"

text \<open>The names under which a generic handler serves, in the order of its entries.\<close>

definition served_methods :: "'a GenericRpcHandler \<Rightarrow> string list" where
  "served_methods g = map (\<lambda>(m, h). fully_qualified_method (service_name g) m) (method_handlers g)"

subsection \<open>The client stub\<close>

text \<open>
  \<open>channel.unary_unary(method, request_serializer=..., response_deserializer=...)\<close> returns
  a callable for one method of the channel. It is modelled by the channel and the three
  arguments it was made from.
\<close>

record UnaryUnaryMultiCallable =
  mc_channel :: pyval
  mc_method :: string
  mc_request_serializer :: codec_method
  mc_response_deserializer :: codec_method

definition channel_unary_unary ::
  "pyval \<Rightarrow> string \<Rightarrow> codec_method \<Rightarrow> codec_method \<Rightarrow> UnaryUnaryMultiCallable" where
  "channel_unary_unary channel method req_serializer resp_deserializer =
     \<lparr>mc_channel = channel, mc_method = method,
      mc_request_serializer = req_serializer,
      mc_response_deserializer = resp_deserializer\<rparr>"

text \<open>\<open>ExecutorStub.__init__(self, channel)\<close>: the object gets the one attribute \<open>Execute\<close>.\<close>

record ExecutorStub =
  stub_Execute :: UnaryUnaryMultiCallable

definition ExecutorStub_init :: "pyval \<Rightarrow> ExecutorStub" where
  "ExecutorStub_init channel =
     \<lparr>stub_Execute =
        channel_unary_unary channel ''/faasfunction.Executor/Execute''
          (SerializeToString FaasRequest) (FromString FaasReply)\<rparr>"

subsection \<open>The static client helper\<close>

text \<open>
  \<open>grpc.experimental.unary_unary\<close> belongs to the gRPC library. A call of it is modelled
  by the values its thirteen parameters receive; the fields below are those parameters in
  the order of its signature, and \<open>bind_positional\<close> binds arguments passed by position,
  as the helper passes all of them.
\<close>

record unary_unary_call =
  arg_request :: pyval
  arg_target :: pyval
  arg_method :: string
  arg_request_serializer :: codec_method
  arg_response_deserializer :: codec_method
  arg_options :: pyval
  arg_channel_credentials :: pyval
  arg_insecure :: pyval
  arg_call_credentials :: pyval
  arg_compression :: pyval
  arg_wait_for_ready :: pyval
  arg_timeout :: pyval
  arg_metadata :: pyval

definition bind_positional ::
  "pyval \<Rightarrow> pyval \<Rightarrow> string \<Rightarrow> codec_method \<Rightarrow> codec_method \<Rightarrow> pyval \<Rightarrow> pyval \<Rightarrow> pyval \<Rightarrow>
   pyval \<Rightarrow> pyval \<Rightarrow> pyval \<Rightarrow> pyval \<Rightarrow> pyval \<Rightarrow> unary_unary_call" where
  "bind_positional a1 a2 a3 a4 a5 a6 a7 a8 a9 a10 a11 a12 a13 =
     \<lparr>arg_request = a1, arg_target = a2, arg_method = a3,
      arg_request_serializer = a4, arg_response_deserializer = a5,
      arg_options = a6, arg_channel_credentials = a7, arg_insecure = a8,
      arg_call_credentials = a9, arg_compression = a10, arg_wait_for_ready = a11,
      arg_timeout = a12, arg_metadata = a13\<rparr>"

text \<open>
  An optional parameter at a call site: left out, or given a value. When it is left out,
  the parameter has the default of the \<open>def\<close>.
\<close>

datatype param = Omitted | Given pyval

fun or_default :: "param \<Rightarrow> pyval \<Rightarrow> pyval" where
  "or_default Omitted d = d"
| "or_default (Given v) d = v"

text \<open>
  \<open>Executor.Execute(request, target, options=(), channel_credentials=None,
  call_credentials=None, insecure=False, compression=None, wait_for_ready=None,
  timeout=None, metadata=None)\<close>. The first argument of the model is
  \<open>grpc.experimental.unary_unary\<close> itself, which performs the call and whose result
  the helper returns.
\<close>

definition Executor_Execute ::
  "(unary_unary_call \<Rightarrow> 'r) \<Rightarrow> pyval \<Rightarrow> pyval \<Rightarrow> param \<Rightarrow> param \<Rightarrow> param \<Rightarrow> param \<Rightarrow>
   param \<Rightarrow> param \<Rightarrow> param \<Rightarrow> param \<Rightarrow> 'r" where
  "Executor_Execute grpc_experimental_unary_unary request target
     p_options p_channel_credentials p_call_credentials p_insecure p_compression
     p_wait_for_ready p_timeout p_metadata =
     (let options = or_default p_options (PyTuple []);
          channel_credentials = or_default p_channel_credentials PyNone;
          call_credentials = or_default p_call_credentials PyNone;
          insecure = or_default p_insecure (PyBool False);
          compression = or_default p_compression PyNone;
          wait_for_ready = or_default p_wait_for_ready PyNone;
          timeout = or_default p_timeout PyNone;
          metadata = or_default p_metadata PyNone
      in grpc_experimental_unary_unary
           (bind_positional request target ''/faasfunction.Executor/Execute''
              (SerializeToString FaasRequest)
              (FromString FaasReply)
              options channel_credentials
              insecure call_credentials compression wait_for_ready timeout metadata))"

section \<open>Properties\<close>

lemma set_code_fields:
  "code (set_code c ctx) = Some c" "details (set_code c ctx) = details ctx"
  by (simp_all add: set_code_def)

lemma set_details_fields:
  "details (set_details d ctx) = Some d" "code (set_details d ctx) = code ctx"
  by (simp_all add: set_details_def)

subsection \<open>Lookup of method handlers\<close>

lemma service_generic_handler:
  "service (generic_handler s) name =
     (if name = ''/faasfunction.Executor/Execute''
      then Some (unary_unary_rpc_method_handler (Execute s)
                   (FromString FaasRequest) (SerializeToString FaasReply))
      else None)"
  by (auto simp add: service_def generic_handler_def rpc_method_handlers_def
      method_handlers_generic_handler_def fully_qualified_method_def)

lemma find_method_handler_append:
  "find_method_handler (gs @ gs') name =
     (case find_method_handler gs name of
        Some h \<Rightarrow> Some h
      | None \<Rightarrow> find_method_handler gs' name)"
  by (induction gs) (simp_all split: option.split)

lemma generic_handlers_add:
  "generic_handlers (add_generic_rpc_handlers hs srv) = generic_handlers srv @ hs"
  by (simp add: add_generic_rpc_handlers_def)

lemma registered_lookup:
  fixes srv :: "('a, 'b) server_scheme"
  shows "find_method_handler (generic_handlers srv @ [generic_handler servicer]) name =
     (case find_method_handler (generic_handlers srv) name of
        Some h \<Rightarrow> Some h
      | None \<Rightarrow>
          (if name = ''/faasfunction.Executor/Execute''
           then Some \<lparr>unary_unary = Execute servicer,
                       request_deserializer = FromString FaasRequest,
                       response_serializer = SerializeToString FaasReply\<rparr>
           else None))"
  by (simp add: find_method_handler_append service_generic_handler
      unary_unary_rpc_method_handler_def split: option.split)

subsection \<open>The default servicer\<close>

text \<open>
  C1: a call of \<open>Execute\<close> on a server whose handler is the default servicer completes with
  status \<open>UNIMPLEMENTED\<close> and the detail \<open>Method not implemented!\<close>. The default servicer
  is registered on a server that serves nothing under the method's name yet; the
  registration returns normally, the server then finds a handler under
  \<open>/faasfunction.Executor/Execute\<close>, and whatever request and context that handler's
  behaviour is run on, it leaves the context holding that status code and that detail
  string, and ends by raising instead of returning a reply.
\<close>

theorem default_servicer_call_unimplemented:
  fixes srv :: "('a, 'b) server_scheme"
  assumes "find_method_handler (generic_handlers srv) ''/faasfunction.Executor/Execute'' = None"
  shows "\<exists>s' srv' h.
           add_ExecutorServicer_to_server ExecutorServicer srv = Inr (s', srv')
         \<and> find_method_handler (generic_handlers srv') ''/faasfunction.Executor/Execute'' = Some h
         \<and> (\<forall>request ctx.
              code (fst (unary_unary h request ctx)) = Some UNIMPLEMENTED
            \<and> details (fst (unary_unary h request ctx)) = Some ''Method not implemented!''
            \<and> isl (snd (unary_unary h request ctx)))"
proof -
  let ?h = "unary_unary_rpc_method_handler (Execute ExecutorServicer)
              (FromString FaasRequest) (SerializeToString FaasReply) :: 'a RpcMethodHandler"
  let ?srv' = "add_generic_rpc_handlers [generic_handler ExecutorServicer] srv"
  have reg: "add_ExecutorServicer_to_server ExecutorServicer srv = Inr (ExecutorServicer, ?srv')"
    by (simp add: add_ExecutorServicer_to_server_def)
  have found: "find_method_handler (generic_handlers ?srv') ''/faasfunction.Executor/Execute'' = Some ?h"
    using assms
    by (simp add: generic_handlers_add find_method_handler_append service_generic_handler)
  have run: "unary_unary ?h request ctx = ExecutorServicer_Execute () request ctx"
    for request and ctx :: "'a ServicerContext_scheme"
    by (simp add: unary_unary_rpc_method_handler_def ExecutorServicer_def)
  have "code (fst (unary_unary ?h request ctx)) = Some UNIMPLEMENTED
      \<and> details (fst (unary_unary ?h request ctx)) = Some ''Method not implemented!''
      \<and> isl (snd (unary_unary ?h request ctx))"
    for request and ctx :: "'a ServicerContext_scheme"
    unfolding run
    by (simp add: ExecutorServicer_Execute_def set_code_fields set_details_fields)
  with reg found show ?thesis by blast
qed

theorem default_servicer_call_unimplemented_witness:
  "find_method_handler (generic_handlers (\<lparr>generic_handlers = []\<rparr> :: unit server))
     ''/faasfunction.Executor/Execute'' = None
   \<and> (\<exists>s' srv' h.
           add_ExecutorServicer_to_server ExecutorServicer (\<lparr>generic_handlers = []\<rparr> :: unit server)
             = Inr (s', srv')
         \<and> find_method_handler (generic_handlers srv') ''/faasfunction.Executor/Execute'' = Some h
         \<and> (\<forall>request ctx.
              code (fst (unary_unary h request ctx)) = Some UNIMPLEMENTED
            \<and> details (fst (unary_unary h request ctx)) = Some ''Method not implemented!''
            \<and> isl (snd (unary_unary h request ctx))))"
proof -
  have none: "find_method_handler (generic_handlers (\<lparr>generic_handlers = []\<rparr> :: unit server))
     ''/faasfunction.Executor/Execute'' = None"
    by simp
  from default_servicer_call_unimplemented [OF none] none show ?thesis
    by blast
qed


text \<open>
  C8: the default servicer's \<open>Execute\<close> never returns a reply. Whatever the receiver, the
  request and the context are, the context comes out with its status code set to
  \<open>UNIMPLEMENTED\<close> and its details set to \<open>Method not implemented!\<close> (everything else in
  it as before), and the outcome is the raised \<open>NotImplementedError\<close> carrying the same
  text; it is not a returned value.
\<close>

theorem ExecutorServicer_Execute_raises:
  "ExecutorServicer_Execute self request ctx =
     (ctx\<lparr>code := Some UNIMPLEMENTED, details := Some ''Method not implemented!''\<rparr>,
      Inl (NotImplementedError ''Method not implemented!''))
   \<and> isl (snd (ExecutorServicer_Execute self request ctx))"
  by (simp add: ExecutorServicer_Execute_def set_code_def set_details_def)

subsection \<open>Registration\<close>

text \<open>
  C10: \<open>add_ExecutorServicer_to_server\<close> installs exactly one generic handler on the
  server. The call returns normally; the server's list of generic handlers is the old list
  with one handler appended and nothing else in the server changes; that handler is for
  the service \<open>faasfunction.Executor\<close> and holds exactly one method entry, under the key
  \<open>Execute\<close>, whose behaviour is the \<open>Execute\<close> of the servicer passed in; and the servicer
  comes back as it went in.
\<close>

theorem add_ExecutorServicer_installs_one_handler:
  "add_ExecutorServicer_to_server servicer srv
     = Inr (servicer, srv\<lparr>generic_handlers := generic_handlers srv @ [generic_handler servicer]\<rparr>)
   \<and> service_name (generic_handler servicer) = ''faasfunction.Executor''
   \<and> method_handlers (generic_handler servicer)
       = [(''Execute'',
           \<lparr>unary_unary = Execute servicer,
            request_deserializer = FromString FaasRequest,
            response_serializer = SerializeToString FaasReply\<rparr>)]"
  by (simp add: add_ExecutorServicer_to_server_def add_generic_rpc_handlers_def
      generic_handler_def rpc_method_handlers_def method_handlers_generic_handler_def
      unary_unary_rpc_method_handler_def)

text \<open>
  C3, as the claim states it, fails: a second registration under the same method name does
  not fail. On the server that already holds the default servicer's registration, a
  second call of \<open>add_ExecutorServicer_to_server\<close> returns normally and the server then
  holds two generic handlers for the same name.
\<close>

theorem duplicate_registration_counterexample:
  "add_ExecutorServicer_to_server ExecutorServicer (\<lparr>generic_handlers = []\<rparr> :: unit server)
     = Inr (ExecutorServicer, \<lparr>generic_handlers = [generic_handler ExecutorServicer]\<rparr>)
   \<and> add_ExecutorServicer_to_server ExecutorServicer
       (\<lparr>generic_handlers = [generic_handler ExecutorServicer]\<rparr> :: unit server)
     = Inr (ExecutorServicer,
            \<lparr>generic_handlers = [generic_handler ExecutorServicer, generic_handler ExecutorServicer]\<rparr>)
   \<and> \<not> isl (add_ExecutorServicer_to_server ExecutorServicer
              (\<lparr>generic_handlers = [generic_handler ExecutorServicer]\<rparr> :: unit server))"
  by (simp add: add_ExecutorServicer_to_server_def add_generic_rpc_handlers_def)

text \<open>
  C3, amended: registering a second time does not fail, and it leaves the first
  registration intact. For any two servicers and any server, both calls return normally;
  the second call appends its generic handler after everything the server held, so the
  first registration is still there, at its place and unchanged; and for every method
  name the server finds the same handler after the second call as before it.
\<close>

theorem duplicate_registration_keeps_first:
  "\<exists>srv1 srv2.
       add_ExecutorServicer_to_server s1 srv = Inr (s1, srv1)
     \<and> add_ExecutorServicer_to_server s2 srv1 = Inr (s2, srv2)
     \<and> generic_handlers srv1 = generic_handlers srv @ [generic_handler s1]
     \<and> generic_handlers srv2 = generic_handlers srv1 @ [generic_handler s2]
     \<and> (\<forall>name. find_method_handler (generic_handlers srv2) name
                = find_method_handler (generic_handlers srv1) name)"
proof -
  let ?srv1 = "add_generic_rpc_handlers [generic_handler s1] srv"
  let ?srv2 = "add_generic_rpc_handlers [generic_handler s2] ?srv1"
  have same: "find_method_handler (generic_handlers ?srv2) name
            = find_method_handler (generic_handlers ?srv1) name" for name
    by (simp add: generic_handlers_add find_method_handler_append service_generic_handler
        split: option.split)
  have "add_ExecutorServicer_to_server s1 srv = Inr (s1, ?srv1)"
    and "add_ExecutorServicer_to_server s2 ?srv1 = Inr (s2, ?srv2)"
    and "generic_handlers ?srv1 = generic_handlers srv @ [generic_handler s1]"
    and "generic_handlers ?srv2 = generic_handlers ?srv1 @ [generic_handler s2]"
    by (simp_all add: add_ExecutorServicer_to_server_def generic_handlers_add)
  with same show ?thesis by blast
qed

subsection \<open>One method, one name\<close>

text \<open>
  C5: the client stub, the static client helper and the server registration designate one
  RPC method each, under the same name, character for character:
  \<open>/faasfunction.Executor/Execute\<close>. The stub's one attribute is a callable for that name;
  the helper calls the transport with that name. A call of
  \<open>add_ExecutorServicer_to_server\<close> returns normally and keeps what the server held; what
  it adds to the server serves exactly one name, composed from the service name
  \<open>faasfunction.Executor\<close> and the method key \<open>Execute\<close>, and that name is the one the two
  client sides use; after the call the server answers a lookup as before where it had an
  answer, with the new handler under that one name, and with nothing under any other name.
  On both client sides requests are serialised by \<open>FaasRequest.SerializeToString\<close> and
  replies read by \<open>FaasReply.FromString\<close>; the handler the registration adds reads requests
  by \<open>FaasRequest.FromString\<close> and serialises replies by \<open>FaasReply.SerializeToString\<close>.
\<close>

theorem one_method_one_name:
  fixes srv :: "('a, 'b) server_scheme"
  shows
  "ExecutorStub_init channel
     = \<lparr>stub_Execute =
          \<lparr>mc_channel = channel, mc_method = ''/faasfunction.Executor/Execute'',
           mc_request_serializer = SerializeToString FaasRequest,
           mc_response_deserializer = FromString FaasReply\<rparr>\<rparr>
   \<and> arg_method (Executor_Execute (\<lambda>c. c) request target p1 p2 p3 p4 p5 p6 p7 p8)
       = ''/faasfunction.Executor/Execute''
   \<and> arg_request_serializer (Executor_Execute (\<lambda>c. c) request target p1 p2 p3 p4 p5 p6 p7 p8)
       = SerializeToString FaasRequest
   \<and> arg_response_deserializer (Executor_Execute (\<lambda>c. c) request target p1 p2 p3 p4 p5 p6 p7 p8)
       = FromString FaasReply
   \<and> (\<exists>srv'.
         add_ExecutorServicer_to_server servicer srv = Inr (servicer, srv')
       \<and> take (length (generic_handlers srv)) (generic_handlers srv') = generic_handlers srv
       \<and> map served_methods (drop (length (generic_handlers srv)) (generic_handlers srv'))
           = [[fully_qualified_method ''faasfunction.Executor'' ''Execute'']]
       \<and> map (\<lambda>g. map (\<lambda>(m, h). (request_deserializer h, response_serializer h))
                      (method_handlers g))
             (drop (length (generic_handlers srv)) (generic_handlers srv'))
           = [[(FromString FaasRequest, SerializeToString FaasReply)]]
       \<and> (\<forall>name. find_method_handler (generic_handlers srv') name =
             (case find_method_handler (generic_handlers srv) name of
                Some h \<Rightarrow> Some h
              | None \<Rightarrow>
                  (if name = ''/faasfunction.Executor/Execute''
                   then Some \<lparr>unary_unary = Execute servicer,
                               request_deserializer = FromString FaasRequest,
                               response_serializer = SerializeToString FaasReply\<rparr>
                   else None))))
   \<and> fully_qualified_method ''faasfunction.Executor'' ''Execute''
       = ''/faasfunction.Executor/Execute''"
proof -
  let ?srv' = "add_generic_rpc_handlers [generic_handler servicer] srv"
  have stub: "ExecutorStub_init channel
     = \<lparr>stub_Execute =
          \<lparr>mc_channel = channel, mc_method = ''/faasfunction.Executor/Execute'',
           mc_request_serializer = SerializeToString FaasRequest,
           mc_response_deserializer = FromString FaasReply\<rparr>\<rparr>"
    by (simp add: ExecutorStub_init_def channel_unary_unary_def)
  have helper:
    "arg_method (Executor_Execute (\<lambda>c. c) request target p1 p2 p3 p4 p5 p6 p7 p8)
       = ''/faasfunction.Executor/Execute''"
    "arg_request_serializer (Executor_Execute (\<lambda>c. c) request target p1 p2 p3 p4 p5 p6 p7 p8)
       = SerializeToString FaasRequest"
    "arg_response_deserializer (Executor_Execute (\<lambda>c. c) request target p1 p2 p3 p4 p5 p6 p7 p8)
       = FromString FaasReply"
    by (simp_all add: Executor_Execute_def bind_positional_def)
  have reg: "add_ExecutorServicer_to_server servicer srv = Inr (servicer, ?srv')"
    by (simp add: add_ExecutorServicer_to_server_def)
  have kept: "take (length (generic_handlers srv)) (generic_handlers ?srv') = generic_handlers srv"
    by (simp add: generic_handlers_add)
  have added: "drop (length (generic_handlers srv)) (generic_handlers ?srv') = [generic_handler servicer]"
    by (simp add: generic_handlers_add)
  have names: "map served_methods [generic_handler servicer]
           = [[fully_qualified_method ''faasfunction.Executor'' ''Execute'']]"
    by (simp add: served_methods_def generic_handler_def rpc_method_handlers_def
        method_handlers_generic_handler_def)
  have codecs: "map (\<lambda>g. map (\<lambda>(m, h). (request_deserializer h, response_serializer h))
                      (method_handlers g)) [generic_handler servicer]
           = [[(FromString FaasRequest, SerializeToString FaasReply)]]"
    by (simp add: generic_handler_def rpc_method_handlers_def
        method_handlers_generic_handler_def unary_unary_rpc_method_handler_def)
  have look: "\<forall>name. find_method_handler (generic_handlers ?srv') name =
             (case find_method_handler (generic_handlers srv) name of
                Some h \<Rightarrow> Some h
              | None \<Rightarrow>
                  (if name = ''/faasfunction.Executor/Execute''
                   then Some \<lparr>unary_unary = Execute servicer,
                               request_deserializer = FromString FaasRequest,
                               response_serializer = SerializeToString FaasReply\<rparr>
                   else None))"
    by (simp add: generic_handlers_add registered_lookup)
  have name: "fully_qualified_method ''faasfunction.Executor'' ''Execute''
       = ''/faasfunction.Executor/Execute''"
    by (simp add: fully_qualified_method_def)
  from reg kept added names codecs look
  have server_side: "\<exists>srv'.
         add_ExecutorServicer_to_server servicer srv = Inr (servicer, srv')
       \<and> take (length (generic_handlers srv)) (generic_handlers srv') = generic_handlers srv
       \<and> map served_methods (drop (length (generic_handlers srv)) (generic_handlers srv'))
           = [[fully_qualified_method ''faasfunction.Executor'' ''Execute'']]
       \<and> map (\<lambda>g. map (\<lambda>(m, h). (request_deserializer h, response_serializer h))
                      (method_handlers g))
             (drop (length (generic_handlers srv)) (generic_handlers srv'))
           = [[(FromString FaasRequest, SerializeToString FaasReply)]]
       \<and> (\<forall>name. find_method_handler (generic_handlers srv') name =
             (case find_method_handler (generic_handlers srv) name of
                Some h \<Rightarrow> Some h
              | None \<Rightarrow>
                  (if name = ''/faasfunction.Executor/Execute''
                   then Some \<lparr>unary_unary = Execute servicer,
                               request_deserializer = FromString FaasRequest,
                               response_serializer = SerializeToString FaasReply\<rparr>
                   else None)))"
    by (intro exI [of _ ?srv']) simp
  from stub helper server_side name show ?thesis by simp
qed

subsection \<open>The client helper's options\<close>

lemma Executor_Execute_call:
  "Executor_Execute transport request target p1 p2 p3 p4 p5 p6 p7 p8 =
     transport
       \<lparr>arg_request = request, arg_target = target,
        arg_method = ''/faasfunction.Executor/Execute'',
        arg_request_serializer = SerializeToString FaasRequest,
        arg_response_deserializer = FromString FaasReply,
        arg_options = or_default p1 (PyTuple []),
        arg_channel_credentials = or_default p2 PyNone,
        arg_insecure = or_default p4 (PyBool False),
        arg_call_credentials = or_default p3 PyNone,
        arg_compression = or_default p5 PyNone,
        arg_wait_for_ready = or_default p6 PyNone,
        arg_timeout = or_default p7 PyNone,
        arg_metadata = or_default p8 PyNone\<rparr>"
  by (simp add: Executor_Execute_def bind_positional_def)

text \<open>
  C6: the client helper forwards every transport option it accepts, unmodified and
  uninspected. Whatever values are given for \<open>options\<close>, \<open>channel_credentials\<close>,
  \<open>call_credentials\<close>, \<open>insecure\<close>, \<open>compression\<close>, \<open>wait_for_ready\<close>, \<open>timeout\<close> and
  \<open>metadata\<close>, the transport is called once, each value arrives at the parameter of the
  same name exactly as it was given, and the helper's result is the transport's result.
\<close>

theorem Executor_Execute_forwards_options:
  "Executor_Execute transport request target
     (Given options) (Given channel_credentials) (Given call_credentials) (Given insecure)
     (Given compression) (Given wait_for_ready) (Given timeout) (Given metadata) =
     transport
       \<lparr>arg_request = request, arg_target = target,
        arg_method = ''/faasfunction.Executor/Execute'',
        arg_request_serializer = SerializeToString FaasRequest,
        arg_response_deserializer = FromString FaasReply,
        arg_options = options,
        arg_channel_credentials = channel_credentials,
        arg_insecure = insecure,
        arg_call_credentials = call_credentials,
        arg_compression = compression,
        arg_wait_for_ready = wait_for_ready,
        arg_timeout = timeout,
        arg_metadata = metadata\<rparr>"
  by (simp add: Executor_Execute_call)

text \<open>
  C9: with every optional argument left out, the client helper calls the transport with
  \<open>insecure\<close> \<open>False\<close>, \<open>options\<close> the empty tuple, and \<open>channel_credentials\<close>,
  \<open>call_credentials\<close>, \<open>compression\<close>, \<open>wait_for_ready\<close>, \<open>timeout\<close> and \<open>metadata\<close> all
  \<open>None\<close>.
\<close>

theorem Executor_Execute_defaults:
  "Executor_Execute transport request target
     Omitted Omitted Omitted Omitted Omitted Omitted Omitted Omitted =
     transport
       \<lparr>arg_request = request, arg_target = target,
        arg_method = ''/faasfunction.Executor/Execute'',
        arg_request_serializer = SerializeToString FaasRequest,
        arg_response_deserializer = FromString FaasReply,
        arg_options = PyTuple [],
        arg_channel_credentials = PyNone,
        arg_insecure = PyBool False,
        arg_call_credentials = PyNone,
        arg_compression = PyNone,
        arg_wait_for_ready = PyNone,
        arg_timeout = PyNone,
        arg_metadata = PyNone\<rparr>"
  by (simp add: Executor_Execute_call)

end
